theory Spec2Isabelle
  imports Complex_Main "HOL-Library.Word" "HOL-Library.Char_ord" "HOL-Library.List_Lexorder"
begin

section \<open>Images pipeline and request fingerprinting of scrapy\<close>

text \<open>
  A shallow embedding of \<^verbatim>\<open>scrapy/contrib/pipeline/images.py\<close> (the stores, the
  freshness check, the processing and persisting of a downloaded image) and of
  \<^verbatim>\<open>fingerprint\<close> in \<^verbatim>\<open>scrapy/utils/request.py\<close>.

  Python byte strings are \<^typ>\<open>string\<close>. The library calls the code makes
  (\<^verbatim>\<open>hashlib\<close>, \<^verbatim>\<open>md5sum\<close>, PIL, \<^verbatim>\<open>time.time\<close>, \<^verbatim>\<open>rfc822\<close>) are the
  fields of an environment record that every function takes. The floats of
  \<^verbatim>\<open>time.time()\<close> and \<^verbatim>\<open>os.path.getmtime\<close> are idealised as reals.
\<close>

subsection \<open>Values, exceptions and the library environment\<close>

type_synonym bytes = string

text \<open>
  The two exception families that \<^verbatim>\<open>media_downloaded\<close> tells apart:
  \<^verbatim>\<open>ImageException\<close> with its message, and every other exception, with the text
  that \<^verbatim>\<open>str(ex)\<close> gives.
\<close>

datatype exn = ImageException string | Exception string

fun exn_str :: "exn \<Rightarrow> string" where
  "exn_str (ImageException m) = m"
| "exn_str (Exception m) = m"

text \<open>A PIL image: its mode, its size (width, height) and its pixel data.\<close>

record image =
  im_mode :: string
  im_size :: "nat \<times> nat"
  im_pixels :: string

record env =
  sha1 :: "string \<Rightarrow> 160 word"
  md5sum :: "bytes \<Rightarrow> string"
  image_open :: "bytes \<Rightarrow> exn + image"
  convert_pixels :: "image \<Rightarrow> string \<Rightarrow> exn + string"
  resize :: "image \<Rightarrow> nat \<times> nat \<Rightarrow> exn + (nat \<times> nat) \<times> string"
  save_jpeg :: "image \<Rightarrow> exn + bytes"
  time_now :: real
  parsedate :: "string \<Rightarrow> int option"

subsection \<open>Decimal and hexadecimal text\<close>

definition digit_char :: "nat \<Rightarrow> char" where
  "digit_char n = ''0123456789abcdef'' ! n"

fun str_nat :: "nat \<Rightarrow> string" where
  "str_nat n = (if n < 10 then [digit_char n] else str_nat (n div 10) @ [digit_char (n mod 10)])"

declare str_nat.simps [simp del]

definition str_int :: "int \<Rightarrow> string" where
  "str_int i = (if i < 0 then CHR ''-'' # str_nat (nat (- i)) else str_nat (nat i))"

primrec hex_digits :: "nat \<Rightarrow> nat \<Rightarrow> string" where
  "hex_digits 0 n = []"
| "hex_digits (Suc k) n = hex_digits k (n div 16) @ [digit_char (n mod 16)]"

text \<open>\<^verbatim>\<open>hashlib.sha1(url).hexdigest()\<close>: the 160 bits of the digest as hexadecimal digits.\<close>

definition hexdigest :: "160 word \<Rightarrow> string" where
  "hexdigest d = hex_digits 40 (unat d)"

definition is_hex :: "string \<Rightarrow> bool" where
  "is_hex s = list_all (\<lambda>c. c \<in> set ''0123456789abcdef'') s"

subsection \<open>Storage keys\<close>

definition image_key :: "env \<Rightarrow> string \<Rightarrow> string" where
  "image_key E url = (let image_guid = hexdigest (sha1 E url) in ''full/'' @ image_guid @ ''.jpg'')"

definition thumb_key :: "env \<Rightarrow> string \<Rightarrow> string \<Rightarrow> string" where
  "thumb_key E url thumb_id =
     (let image_guid = hexdigest (sha1 E url) in ''thumbs/'' @ thumb_id @ ''/'' @ image_guid @ ''.jpg'')"

subsection \<open>Requests, responses, stat results and outcomes\<close>

text \<open>
  A request and a response with the attributes the code reads. The headers map a header
  name to the list of its values (\<^verbatim>\<open>request.headers.getlist\<close>); a name that is not
  \<^verbatim>\<open>in request.headers\<close> maps to \<open>None\<close>.
\<close>

record request =
  req_method :: string
  req_url :: string
  req_body :: bytes
  req_headers :: "string \<Rightarrow> bytes list option"

record response =
  resp_status :: int
  resp_body :: bytes
  resp_flags :: "string list"
  resp_url :: string
  resp_headers :: "string \<Rightarrow> string option"

text \<open>
  The dictionary a store's \<^verbatim>\<open>stat_image\<close> returns: each of its two keys is there or
  not, and \<^verbatim>\<open>{}\<close> has neither. What \<^verbatim>\<open>stat_image\<close> hands over is such a dictionary or
  Python's \<^verbatim>\<open>None\<close>.
\<close>

record stat_result =
  last_modified :: "real option"
  checksum :: "string option"

definition empty_stat :: stat_result where
  "empty_stat = \<lparr>last_modified = None, checksum = None\<rparr>"

text \<open>The dictionary \<^verbatim>\<open>{'url': ..., 'path': ..., 'checksum': ...}\<close> of a resource.\<close>

record outcome =
  o_url :: string
  o_path :: string
  o_checksum :: "string option"

subsection \<open>Paths (\<^verbatim>\<open>posixpath\<close>)\<close>

fun split_slash :: "string \<Rightarrow> string list" where
  "split_slash [] = [[]]"
| "split_slash (c # cs) =
     (if c = CHR ''/'' then [] # split_slash cs
      else (case split_slash cs of [] \<Rightarrow> [[c]] | p # ps \<Rightarrow> (c # p) # ps))"

definition path_join1 :: "string \<Rightarrow> string \<Rightarrow> string" where
  "path_join1 path b =
     (if b \<noteq> [] \<and> hd b = CHR ''/'' then b
      else if path = [] \<or> last path = CHR ''/'' then path @ b
      else path @ ''/'' @ b)"

definition path_join :: "string \<Rightarrow> string list \<Rightarrow> string" where
  "path_join a p = foldl path_join1 a p"

definition rstrip_slash :: "string \<Rightarrow> string" where
  "rstrip_slash s = rev (dropWhile (\<lambda>c. c = CHR ''/'') (rev s))"

definition dirname :: "string \<Rightarrow> string" where
  "dirname p =
     (let head = rev (dropWhile (\<lambda>c. c \<noteq> CHR ''/'') (rev p))
      in if head \<noteq> [] \<and> head \<noteq> replicate (length head) (CHR ''/'') then rstrip_slash head else head)"

subsection \<open>The world outside the pipeline\<close>

text \<open>
  The file system as the filesystem store sees it, the requests handed to the engine for
  the S3 store, and the store's memo of created directories. \<open>fs_mtime p = None\<close> is a
  path on which \<^verbatim>\<open>os.path.getmtime\<close> raises, \<open>fs_file p = None\<close> one that \<^verbatim>\<open>open\<close>
  cannot read, \<open>fs_denied p\<close> one on which \<^verbatim>\<open>os.makedirs\<close> and \<^verbatim>\<open>image.save\<close> raise.
  A call that raises hands back no new world: what it changed before raising (a
  directory made before the save failed, a file half written) is not part of the model.
  \<open>s3_download r\<close> is what the deferred of \<^verbatim>\<open>_download_request\<close> for the request \<open>r\<close> fires
  with: the response or the failure.
  \<open>persisted\<close> is the history of the calls of \<^verbatim>\<open>persist_image\<close> that returned, in order.
\<close>

record s3_request =
  s3_url :: string
  s3_method :: string
  s3_body :: "bytes option"
  s3_headers :: "(string \<times> string) list"

record world =
  fs_mtime :: "string \<Rightarrow> real option"
  fs_file :: "string \<Rightarrow> bytes option"
  fs_dirs :: "string \<Rightarrow> bool"
  fs_denied :: "string \<Rightarrow> bool"
  created_directories :: "string \<Rightarrow> string list"
  s3_sent :: "s3_request list"
  s3_download :: "s3_request \<Rightarrow> exn + response"
  persisted :: "(string \<times> image \<times> bytes) list"

datatype store = FSImagesStore string | S3ImagesStore string string

subsection \<open>The filesystem store\<close>

definition get_filesystem_path :: "string \<Rightarrow> string \<Rightarrow> string" where
  "get_filesystem_path basedir key = path_join basedir (split_slash key)"

definition makedirs :: "string \<Rightarrow> world \<Rightarrow> exn + world" where
  "makedirs d w =
     (if fs_denied w d then Inl (Exception ''OSError'')
      else Inr (w\<lparr>fs_dirs := (fs_dirs w)(d := True)\<rparr>))"

definition mkdir :: "string \<Rightarrow> string option \<Rightarrow> world \<Rightarrow> exn + world" where
  "mkdir d domain w =
     (let seen = (case domain of Some i \<Rightarrow> created_directories w i | None \<Rightarrow> [])
      in if d \<notin> set seen then
           (case (if \<not> fs_dirs w d then makedirs d w else Inr w) of
              Inl e \<Rightarrow> Inl e
            | Inr w' \<Rightarrow>
                Inr (case domain of
                       Some i \<Rightarrow> w'\<lparr>created_directories := (created_directories w')(i := d # seen)\<rparr>
                     | None \<Rightarrow> w'))
         else Inr w)"

definition image_save_path :: "env \<Rightarrow> image \<Rightarrow> string \<Rightarrow> world \<Rightarrow> exn + world" where
  "image_save_path E im p w =
     (if fs_denied w p then Inl (Exception ''IOError'')
      else (case save_jpeg E im of
              Inl e \<Rightarrow> Inl e
            | Inr data \<Rightarrow>
                Inr (w\<lparr>fs_mtime := (fs_mtime w)(p \<mapsto> time_now E), fs_file := (fs_file w)(p \<mapsto> data)\<rparr>)))"

definition fs_persist_image ::
  "env \<Rightarrow> string \<Rightarrow> string \<Rightarrow> image \<Rightarrow> bytes \<Rightarrow> string \<Rightarrow> world \<Rightarrow> exn + world" where
  "fs_persist_image E basedir key im buf info w =
     (let absolute_path = get_filesystem_path basedir key
      in case mkdir (dirname absolute_path) (Some info) w of
           Inl e \<Rightarrow> Inl e
         | Inr w' \<Rightarrow> image_save_path E im absolute_path w')"

definition fs_stat_image :: "env \<Rightarrow> string \<Rightarrow> string \<Rightarrow> world \<Rightarrow> exn + stat_result option" where
  "fs_stat_image E basedir key w =
     (let absolute_path = get_filesystem_path basedir key
      in case fs_mtime w absolute_path of
           None \<Rightarrow> Inr (Some empty_stat)
         | Some lm \<Rightarrow>
             (case fs_file w absolute_path of
                None \<Rightarrow> Inl (Exception ''IOError'')
              | Some data \<Rightarrow> Inr (Some \<lparr>last_modified = Some lm, checksum = Some (md5sum E data)\<rparr>)))"

subsection \<open>The S3 store\<close>

definition s3_build_request ::
  "string \<Rightarrow> string \<Rightarrow> string \<Rightarrow> string \<Rightarrow> bytes option \<Rightarrow> (string \<times> string) list \<Rightarrow> s3_request" where
  "s3_build_request bucket prefix key meth body headers =
     \<lparr>s3_url = ''http://'' @ bucket @ ''.s3.amazonaws.com/'' @ prefix @ key,
      s3_method = meth, s3_body = body, s3_headers = headers\<rparr>"

text \<open>
  \<^verbatim>\<open>persist_image\<close> returns the deferred of the upload, and \<^verbatim>\<open>image_downloaded\<close> drops
  it: the request is handed to the engine and the call returns.
\<close>

definition s3_persist_image ::
  "string \<Rightarrow> string \<Rightarrow> string \<Rightarrow> image \<Rightarrow> bytes \<Rightarrow> string \<Rightarrow> world \<Rightarrow> exn + world" where
  "s3_persist_image bucket prefix key im buf info w =
     (case im_size im of (width, height) \<Rightarrow>
        (let headers = [(''Content-Type'', ''image/jpeg''),
                        (''X-Amz-Acl'', ''public-read''),
                        (''X-Amz-Meta-Width'', str_nat width),
                        (''X-Amz-Meta-Height'', str_nat height),
                        (''Cache-Control'', ''max-age=172800'')];
             req = s3_build_request bucket prefix key ''PUT'' (Some buf) headers
         in Inr (w\<lparr>s3_sent := s3_sent w @ [req]\<rparr>)))"

definition strip_quotes :: "string \<Rightarrow> string" where
  "strip_quotes s =
     rev (dropWhile (\<lambda>c. c = CHR 0x22) (rev (dropWhile (\<lambda>c. c = CHR 0x22) s)))"

definition s3_onsuccess :: "env \<Rightarrow> response \<Rightarrow> exn + stat_result option" where
  "s3_onsuccess E resp =
     (if resp_status resp = 200 then
        (case resp_headers resp ''Etag'' of
           None \<Rightarrow> Inl (Exception ''KeyError'')
         | Some etag \<Rightarrow>
             (case resp_headers resp ''Last-Modified'' of
                None \<Rightarrow> Inl (Exception ''KeyError'')
              | Some lm \<Rightarrow>
                  (case parsedate E lm of
                     None \<Rightarrow> Inl (Exception ''TypeError'')
                   | Some modified_stamp \<Rightarrow>
                       Inr (Some \<lparr>last_modified = Some (real_of_int modified_stamp),
                                  checksum = Some (strip_quotes etag)\<rparr>))))
      else Inr None)"

definition s3_stat_image ::
  "env \<Rightarrow> string \<Rightarrow> string \<Rightarrow> string \<Rightarrow> world \<Rightarrow> (exn + stat_result option) \<times> world" where
  "s3_stat_image E bucket prefix key w =
     (let req = s3_build_request bucket prefix key ''HEAD'' None [];
          w' = w\<lparr>s3_sent := s3_sent w @ [req]\<rparr>
      in (case s3_download w req of
            Inl e \<Rightarrow> (Inl e, w')
          | Inr resp \<Rightarrow> (s3_onsuccess E resp, w')))"

subsection \<open>Dispatch on the store\<close>

fun store_persist_image ::
  "env \<Rightarrow> store \<Rightarrow> string \<Rightarrow> image \<Rightarrow> bytes \<Rightarrow> string \<Rightarrow> world \<Rightarrow> exn + world" where
  "store_persist_image E (FSImagesStore basedir) key im buf info w = fs_persist_image E basedir key im buf info w"
| "store_persist_image E (S3ImagesStore bucket prefix) key im buf info w = s3_persist_image bucket prefix key im buf info w"

definition persist_image ::
  "env \<Rightarrow> store \<Rightarrow> string \<Rightarrow> image \<Rightarrow> bytes \<Rightarrow> string \<Rightarrow> world \<Rightarrow> exn + world" where
  "persist_image E st key im buf info w =
     (case store_persist_image E st key im buf info w of
        Inl e \<Rightarrow> Inl e
      | Inr w' \<Rightarrow> Inr (w'\<lparr>persisted := persisted w' @ [(key, im, buf)]\<rparr>))"

fun stat_image ::
  "env \<Rightarrow> store \<Rightarrow> string \<Rightarrow> string \<Rightarrow> world \<Rightarrow> (exn + stat_result option) \<times> world" where
  "stat_image E (FSImagesStore basedir) key info w = (fs_stat_image E basedir key w, w)"
| "stat_image E (S3ImagesStore bucket prefix) key info w = s3_stat_image E bucket prefix key w"

subsection \<open>The pipeline: settings and state\<close>

text \<open>
  \<open>THUMBS\<close> is the dictionary of thumbnail sizes in the order \<^verbatim>\<open>iteritems\<close> walks it.
  The log keeps, for a message, its level and the label the source writes in parentheses
  (or the text of the exception), and for \<^verbatim>\<open>log.err\<close> the exception.
\<close>

record config =
  MIN_WIDTH :: int
  MIN_HEIGHT :: int
  EXPIRES :: int
  THUMBS :: "(string \<times> nat \<times> nat) list"
  image_store :: store

datatype log_level = DEBUG | WARNING

datatype log_entry = LogMsg log_level string | LogErr exn

record pstate =
  plog :: "log_entry list"
  pstats :: "string \<Rightarrow> nat"
  pworld :: world

definition log_msg :: "log_level \<Rightarrow> string \<Rightarrow> pstate \<Rightarrow> pstate" where
  "log_msg lv m s = s\<lparr>plog := plog s @ [LogMsg lv m]\<rparr>"

definition stats_inc_value :: "string \<Rightarrow> pstate \<Rightarrow> pstate" where
  "stats_inc_value k s = s\<lparr>pstats := (pstats s)(k := Suc (pstats s k))\<rparr>"

definition inc_stats :: "string \<Rightarrow> pstate \<Rightarrow> pstate" where
  "inc_stats status s = stats_inc_value (''image_status_count/'' @ status) (stats_inc_value ''image_count'' s)"

subsection \<open>Processing a downloaded image\<close>

definition convert :: "env \<Rightarrow> image \<Rightarrow> string \<Rightarrow> exn + image" where
  "convert E im m =
     (case convert_pixels E im m of
        Inl e \<Rightarrow> Inl e
      | Inr px \<Rightarrow> Inr (im\<lparr>im_mode := m, im_pixels := px\<rparr>))"

definition thumbnail :: "env \<Rightarrow> image \<Rightarrow> nat \<times> nat \<Rightarrow> exn + image" where
  "thumbnail E im sz =
     (case resize E im sz of
        Inl e \<Rightarrow> Inl e
      | Inr (sz', px) \<Rightarrow> Inr (im\<lparr>im_size := sz', im_pixels := px\<rparr>))"

definition convert_image :: "env \<Rightarrow> image \<Rightarrow> (nat \<times> nat) option \<Rightarrow> exn + image \<times> bytes" where
  "convert_image E im0 sz =
     (case (if im_mode im0 \<noteq> ''RGB'' then convert E im0 ''RGB'' else Inr im0) of
        Inl e \<Rightarrow> Inl e
      | Inr im1 \<Rightarrow>
          (case (case sz of Some z \<Rightarrow> thumbnail E im1 z | None \<Rightarrow> Inr im1) of
             Inl e \<Rightarrow> Inl e
           | Inr im2 \<Rightarrow>
               (case save_jpeg E im2 of
                  Inl ex \<Rightarrow> Inl (ImageException (''Cannot process image. Error: '' @ exn_str ex))
                | Inr buf \<Rightarrow> Inr (im2, buf))))"

definition too_small_msg :: "nat \<Rightarrow> nat \<Rightarrow> int \<Rightarrow> int \<Rightarrow> string \<Rightarrow> string" where
  "too_small_msg width height mw mh u =
     ''Image too small ('' @ str_nat width @ ''x'' @ str_nat height @ '' < '' @ str_int mw @ ''x'' @ str_int mh @ ''): '' @ u"

text \<open>
  \<^verbatim>\<open>get_images\<close> is a generator. Its model is the list of what each \<^verbatim>\<open>next()\<close> gives:
  an artifact (key, image, buffer) or the exception raised, after which the generator
  gives nothing more; the consumer stops at the first exception.
\<close>

definition thumb_step :: "env \<Rightarrow> string \<Rightarrow> image \<Rightarrow> string \<times> nat \<times> nat \<Rightarrow> exn + string \<times> image \<times> bytes" where
  "thumb_step E u im t =
     (case t of (thumb_id, sz) \<Rightarrow>
        (case convert_image E im (Some sz) of
           Inl e \<Rightarrow> Inl e
         | Inr (thumb_image, thumb_buf) \<Rightarrow> Inr (thumb_key E u thumb_id, thumb_image, thumb_buf)))"

definition get_images :: "env \<Rightarrow> config \<Rightarrow> response \<Rightarrow> request \<Rightarrow> (exn + string \<times> image \<times> bytes) list" where
  "get_images E cfg resp req =
     (let key = image_key E (req_url req)
      in case image_open E (resp_body resp) of
           Inl e \<Rightarrow> [Inl e]
         | Inr orig_image \<Rightarrow>
             (case im_size orig_image of (width, height) \<Rightarrow>
                if int width < MIN_WIDTH cfg \<or> int height < MIN_HEIGHT cfg then
                  [Inl (ImageException (too_small_msg width height (MIN_WIDTH cfg) (MIN_HEIGHT cfg) (resp_url resp)))]
                else
                  (case convert_image E orig_image None of
                     Inl e \<Rightarrow> [Inl e]
                   | Inr (im, buf) \<Rightarrow>
                       Inr (key, im, buf) # map (thumb_step E (req_url req) im) (THUMBS cfg))))"

fun persist_loop ::
  "env \<Rightarrow> store \<Rightarrow> string \<Rightarrow> (exn + string \<times> image \<times> bytes) list \<Rightarrow> bytes option \<Rightarrow> world
     \<Rightarrow> (exn + bytes option) \<times> world" where
  "persist_loop E st info [] first_buf w = (Inr first_buf, w)"
| "persist_loop E st info (Inl e # rest) first_buf w = (Inl e, w)"
| "persist_loop E st info (Inr (key, im, buf) # rest) first_buf w =
     (case persist_image E st key im buf info w of
        Inl e \<Rightarrow> (Inl e, w)
      | Inr w' \<Rightarrow> persist_loop E st info rest (if first_buf = None then Some buf else first_buf) w')"

definition image_downloaded ::
  "env \<Rightarrow> config \<Rightarrow> response \<Rightarrow> request \<Rightarrow> string \<Rightarrow> world \<Rightarrow> (exn + string) \<times> world" where
  "image_downloaded E cfg resp req info w =
     (case persist_loop E (image_store cfg) info (get_images E cfg resp req) None w of
        (Inl e, w') \<Rightarrow> (Inl e, w')
      | (Inr None, w') \<Rightarrow> (Inl (Exception ''AttributeError''), w')
      | (Inr (Some first_buf), w') \<Rightarrow> (Inr (md5sum E first_buf), w'))"

definition media_downloaded ::
  "env \<Rightarrow> config \<Rightarrow> response \<Rightarrow> request \<Rightarrow> string \<Rightarrow> pstate \<Rightarrow> (exn + outcome) \<times> pstate" where
  "media_downloaded E cfg resp req info s =
     (if resp_status resp \<noteq> 200 then (Inl (ImageException []), log_msg WARNING ''http-error'' s)
      else if resp_body resp = [] then (Inl (ImageException []), log_msg WARNING ''empty-content'' s)
      else
        (let status = (if ''cached'' \<in> set (resp_flags resp) then ''cached'' else ''downloaded'');
             s1 = inc_stats status (log_msg DEBUG status s);
             key = image_key E (req_url req)
         in case image_downloaded E cfg resp req info (pworld s1) of
              (Inl (ImageException m), w') \<Rightarrow>
                (Inl (ImageException m), log_msg WARNING m (s1\<lparr>pworld := w'\<rparr>))
            | (Inl (Exception m), w') \<Rightarrow>
                (Inl (ImageException []), (s1\<lparr>pworld := w'\<rparr>)\<lparr>plog := plog s1 @ [LogErr (Exception m)]\<rparr>)
            | (Inr cs, w') \<Rightarrow>
                (Inr \<lparr>o_url = req_url req, o_path = key, o_checksum = Some cs\<rparr>, s1\<lparr>pworld := w'\<rparr>)))"

subsection \<open>The freshness check\<close>

text \<open>
  A deferred that has fired is its result, a value or a failure, beside the state.
  \<^verbatim>\<open>addCallbacks\<close> runs the callback on a value and the errback on a failure;
  \<^verbatim>\<open>addErrback\<close> passes a value on.
\<close>

definition add_callbacks ::
  "('a \<Rightarrow> 's \<Rightarrow> (exn + 'b) \<times> 's) \<Rightarrow> (exn \<Rightarrow> 's \<Rightarrow> (exn + 'b) \<times> 's) \<Rightarrow> (exn + 'a) \<times> 's \<Rightarrow> (exn + 'b) \<times> 's" where
  "add_callbacks cb eb d = (case d of (Inr v, s) \<Rightarrow> cb v s | (Inl f, s) \<Rightarrow> eb f s)"

definition add_errback ::
  "(exn \<Rightarrow> 's \<Rightarrow> (exn + 'a) \<times> 's) \<Rightarrow> (exn + 'a) \<times> 's \<Rightarrow> (exn + 'a) \<times> 's" where
  "add_errback eb d = (case d of (Inr v, s) \<Rightarrow> (Inr v, s) | (Inl f, s) \<Rightarrow> eb f s)"

text \<open>\<^verbatim>\<open>log.err\<close> as an errback: it logs the failure and returns \<^verbatim>\<open>None\<close>.\<close>

definition log_err :: "exn \<Rightarrow> pstate \<Rightarrow> (exn + 'a option) \<times> pstate" where
  "log_err f s = (Inr None, s\<lparr>plog := plog s @ [LogErr f]\<rparr>)"

text \<open>
  The inner function \<^verbatim>\<open>_onsuccess\<close> of \<^verbatim>\<open>media_to_download\<close>. \<open>None\<close> is the
  \<^verbatim>\<open>None\<close> that forces the download. \<^verbatim>\<open>not result\<close> holds of \<^verbatim>\<open>None\<close> and of the empty
  dictionary, \<^verbatim>\<open>not last_modified\<close> of a missing value and of zero.
\<close>

definition onsuccess ::
  "env \<Rightarrow> config \<Rightarrow> request \<Rightarrow> string \<Rightarrow> stat_result option \<Rightarrow> pstate \<Rightarrow> (exn + outcome option) \<times> pstate" where
  "onsuccess E cfg req key result s =
     (case result of
        None \<Rightarrow> (Inr None, s)
      | Some d \<Rightarrow>
          if last_modified d = None \<and> checksum d = None then (Inr None, s)
          else
            (case last_modified d of
               None \<Rightarrow> (Inr None, s)
             | Some lm \<Rightarrow>
                 if lm = 0 then (Inr None, s)
                 else
                   (let age_seconds = time_now E - lm;
                        age_days = age_seconds / 60 / 60 / 24
                    in if age_days > real_of_int (EXPIRES cfg) then (Inr None, s)
                       else (Inr (Some \<lparr>o_url = req_url req, o_path = key, o_checksum = checksum d\<rparr>),
                             inc_stats ''uptodate'' (log_msg DEBUG ''uptodate'' s)))))"

definition media_to_download ::
  "env \<Rightarrow> config \<Rightarrow> request \<Rightarrow> string \<Rightarrow> pstate \<Rightarrow> (exn + outcome option) \<times> pstate" where
  "media_to_download E cfg req info s =
     (let key = image_key E (req_url req);
          dfd = (case stat_image E (image_store cfg) key info (pworld s) of
                   (r, w') \<Rightarrow> (r, s\<lparr>pworld := w'\<rparr>))
      in add_errback log_err
           (add_callbacks (onsuccess E cfg req key) (\<lambda>_ s'. (Inr None, s')) dfd))"

subsection \<open>The freshness rule as the specification words it\<close>

text \<open>
  The specification's rule: stale if the age, in whole days with fractional days rounded
  down, exceeds the expiry window.
\<close>

definition spec_stale :: "real \<Rightarrow> real \<Rightarrow> int \<Rightarrow> bool" where
  "spec_stale now lm window = (\<lfloor>(now - lm) / 86400\<rfloor> > window)"

subsection \<open>Example inputs\<close>

text \<open>
  An environment, a world, a request and settings to run the functions on. The library
  functions of the environment are simple stand-ins; \<open>sha1\<close> gives the SHA-1 digest of the
  example URL.
\<close>

definition example_env :: env where
  "example_env =
     \<lparr>sha1 = (\<lambda>u. if u = ''http://example.com/a.jpg'' then 0x99e087d9e04c1527ebd8026fd3cc31035e6c7210
                   else word_of_nat (length u)),
      md5sum = (\<lambda>b. hex_digits 32 (length b)),
      image_open = (\<lambda>b. if b = ''not an image'' then Inl (Exception ''IOError'')
                         else Inr \<lparr>im_mode = ''P'', im_size = (if b = ''GIF'' then (3, 3) else (640, 480)),
                                   im_pixels = b\<rparr>),
      convert_pixels = (\<lambda>im m. Inr (im_pixels im)),
      resize = (\<lambda>im sz. Inr (sz, im_pixels im)),
      save_jpeg = (\<lambda>im. Inr (im_pixels im)),
      time_now = 7820200,
      parsedate = (\<lambda>_. None)\<rparr>"

definition example_world :: world where
  "example_world =
     \<lparr>fs_mtime = Map.empty, fs_file = Map.empty, fs_dirs = (\<lambda>_. False), fs_denied = (\<lambda>_. False),
      created_directories = (\<lambda>_. []), s3_sent = [], s3_download = (\<lambda>_. Inl (Exception ''TimeoutError'')),
      persisted = []\<rparr>"

definition example_state :: pstate where
  "example_state = \<lparr>plog = [], pstats = (\<lambda>_. 0), pworld = example_world\<rparr>"

definition example_request :: request where
  "example_request =
     \<lparr>req_method = ''GET'', req_url = ''http://example.com/a.jpg'', req_body = [], req_headers = Map.empty\<rparr>"

definition example_config :: config where
  "example_config =
     \<lparr>MIN_WIDTH = 0, MIN_HEIGHT = 0, EXPIRES = 90, THUMBS = [(''small'', 50, 50), (''big'', 270, 270)],
      image_store = FSImagesStore ''/data''\<rparr>"

definition example_path :: string where
  "example_path = get_filesystem_path ''/data'' (image_key example_env ''http://example.com/a.jpg'')"

definition epoch_world :: world where
  "epoch_world =
     example_world\<lparr>fs_mtime := (\<lambda>p. if p = example_path then Some 0 else None),
                   fs_file := (\<lambda>p. if p = example_path then Some ''JPEG'' else None)\<rparr>"

definition unreadable_world :: world where
  "unreadable_world = example_world\<lparr>fs_mtime := (\<lambda>p. if p = example_path then Some 7000000 else None)\<rparr>"

definition not_found_response :: response where
  "not_found_response =
     \<lparr>resp_status = 404, resp_body = ''Not Found'', resp_flags = [], resp_url = ''http://example.com/a.jpg'',
      resp_headers = Map.empty\<rparr>"

subsection \<open>The key shape as the specification words it\<close>

text \<open>
  The specification's shape of a primary key: \<^verbatim>\<open>full/\<close>, a digest of 64 hexadecimal
  characters, and an extension of a dot and three characters.
\<close>

definition spec_primary_key_shape :: "string \<Rightarrow> bool" where
  "spec_primary_key_shape k =
     (length k = 5 + 64 + 4 \<and> take 5 k = ''full/'' \<and> is_hex (take 64 (drop 5 k)) \<and> drop 69 k = ''.jpg'')"

text \<open>
  A response with status 200, settings with minimum dimensions, a world where no
  path can be written, and settings with the S3 store.
\<close>

definition ok_response :: response where
  "ok_response =
     \<lparr>resp_status = 200, resp_body = ''JPEGDATA'', resp_flags = [], resp_url = ''http://example.com/a.jpg'',
      resp_headers = Map.empty\<rparr>"

definition strict_config :: config where
  "strict_config = example_config\<lparr>MIN_WIDTH := 110, MIN_HEIGHT := 110\<rparr>"

definition readonly_world :: world where
  "readonly_world = example_world\<lparr>fs_denied := (\<lambda>_. True)\<rparr>"

definition s3_config :: config where
  "s3_config = example_config\<lparr>image_store := S3ImagesStore ''bucket'' ''img/''\<rparr>"

text \<open>
  The primary image that the example environment makes of the example payload.
\<close>

definition example_primary :: image where
  "example_primary = \<lparr>im_mode = ''RGB'', im_size = (640, 480), im_pixels = ''JPEGDATA''\<rparr>"

text \<open>
  A world where the directory of the first thumbnail cannot be made, and that world after
  the primary artifact of the example has been saved.
\<close>

definition thumbs_denied_world :: world where
  "thumbs_denied_world = example_world\<lparr>fs_denied := (\<lambda>p. p = ''/data/thumbs/small'')\<rparr>"

definition primary_saved_world :: world where
  "primary_saved_world =
     thumbs_denied_world
       \<lparr>fs_mtime := (fs_mtime thumbs_denied_world)
                       (''/data/full/99e087d9e04c1527ebd8026fd3cc31035e6c7210.jpg'' \<mapsto> time_now example_env),
        fs_file := (fs_file thumbs_denied_world)
                       (''/data/full/99e087d9e04c1527ebd8026fd3cc31035e6c7210.jpg'' \<mapsto> ''JPEGDATA''),
        fs_dirs := (fs_dirs thumbs_denied_world)(''/data/full'' := True),
        created_directories := (created_directories thumbs_denied_world)(''spider'' := [''/data/full'']),
        persisted := [(''full/99e087d9e04c1527ebd8026fd3cc31035e6c7210.jpg'', example_primary, ''JPEGDATA'')]\<rparr>"

subsection \<open>What the stores hold after the artifacts are persisted\<close>




subsection \<open>Request fingerprints (\<^verbatim>\<open>scrapy/utils/request.py\<close>)\<close>














subsection \<open>Facts about the keys\<close>

lemma length_hex_digits: "length (hex_digits k n) = k"
  by (induction k arbitrary: n) simp_all

lemma digit_char_hex: "n < 16 \<Longrightarrow> digit_char n \<in> set ''0123456789abcdef''"
  unfolding digit_char_def by (rule nth_mem) simp

lemma is_hex_hex_digits: "is_hex (hex_digits k n)"
  by (induction k arbitrary: n) (simp_all add: is_hex_def digit_char_hex del: set_simps)

lemma length_hexdigest: "length (hexdigest d) = 40"
  by (simp add: hexdigest_def length_hex_digits)

lemma is_hex_hexdigest: "is_hex (hexdigest d)"
  by (simp add: hexdigest_def is_hex_hex_digits)

subsection \<open>The freshness check: claims\<close>

lemma media_to_download_unfold:
  "media_to_download E cfg req info s =
     (case stat_image E (image_store cfg) (image_key E (req_url req)) info (pworld s) of
        (Inl f, w') \<Rightarrow> (Inr None, s\<lparr>pworld := w'\<rparr>)
      | (Inr r, w') \<Rightarrow> onsuccess E cfg req (image_key E (req_url req)) r (s\<lparr>pworld := w'\<rparr>))"
  by (simp add: media_to_download_def add_callbacks_def add_errback_def Let_def onsuccess_def
      split: prod.splits sum.splits option.splits)

lemma onsuccess_never_fails: "\<exists>v. fst (onsuccess E cfg req key r s) = Inr v"
  by (simp add: onsuccess_def Let_def split: option.splits)

lemma onsuccess_stale_iff:
  assumes "last_modified d = Some lm" and "lm \<noteq> 0"
  shows "fst (onsuccess E cfg req key (Some d) s) = Inr None \<longleftrightarrow>
         (time_now E - lm) / 86400 > real_of_int (EXPIRES cfg)"
  using assms by (simp add: onsuccess_def Let_def)

text \<open>
  C1 (as amended): for a stat result with a last-modified timestamp other than zero, a cached
  image whose age is exactly \<open>EXPIRES\<close> days is fresh (the outcome is returned, no download),
  one whose age is \<open>EXPIRES + 1\<close> days is stale (\<open>None\<close>, the download is forced), and in
  general the image is stale exactly when its age in days, as a fraction, exceeds the
  window: fractional days are not rounded down.
\<close>

theorem freshness_boundary:
  assumes "last_modified d = Some lm" and "lm \<noteq> 0"
  shows "fst (onsuccess (E\<lparr>time_now := lm + 86400 * real_of_int (EXPIRES cfg)\<rparr>) cfg req key (Some d) s)
           = Inr (Some \<lparr>o_url = req_url req, o_path = key, o_checksum = checksum d\<rparr>)
       \<and> fst (onsuccess (E\<lparr>time_now := lm + 86400 * real_of_int (EXPIRES cfg + 1)\<rparr>) cfg req key (Some d) s)
           = Inr None
       \<and> (fst (onsuccess E cfg req key (Some d) s) = Inr None
            \<longleftrightarrow> (time_now E - lm) / 86400 > real_of_int (EXPIRES cfg))"
  using assms by (simp add: onsuccess_def Let_def)

theorem freshness_boundary_witness:
  "fst (onsuccess (example_env\<lparr>time_now := 1000 + 86400 * 90\<rparr>) example_config example_request ''k''
          (Some \<lparr>last_modified = Some 1000, checksum = Some ''c''\<rparr>) example_state)
     = Inr (Some \<lparr>o_url = ''http://example.com/a.jpg'', o_path = ''k'', o_checksum = Some ''c''\<rparr>)
   \<and> fst (onsuccess (example_env\<lparr>time_now := 1000 + 86400 * 91\<rparr>) example_config example_request ''k''
          (Some \<lparr>last_modified = Some 1000, checksum = Some ''c''\<rparr>) example_state)
     = Inr None"
  using freshness_boundary [where d = "\<lparr>last_modified = Some 1000, checksum = Some ''c''\<rparr>" and lm = 1000
      and E = example_env and cfg = example_config and req = example_request and key = "''k''" and s = example_state]
  by (simp add: example_config_def example_request_def)

text \<open>
  The claim as the specification words it fails: at an age of 90.5 days and a window of
  90 days the code forces the download, while the age in whole days, rounded down, does
  not exceed the window.
\<close>

theorem fractional_days_counterexample:
  "fst (onsuccess example_env example_config example_request ''k''
          (Some \<lparr>last_modified = Some 1000, checksum = Some ''c''\<rparr>) example_state) = Inr None
   \<and> \<not> spec_stale (time_now example_env) 1000 (EXPIRES example_config)"
  by (simp add: onsuccess_def example_env_def example_config_def spec_stale_def)

text \<open>
  C5: a stat of a key with no stored object raises nothing and returns an absent
  result (the empty dictionary of the filesystem store, \<open>None\<close> of the S3 store on a status
  other than 200); the freshness check never ends in a failure, and a stat that failed
  or found nothing gives \<open>None\<close>, which forces the download.
\<close>

theorem stat_failure_forces_download:
  "(\<exists>v. fst (media_to_download E cfg req info s) = Inr v)
   \<and> (fst (stat_image E (image_store cfg) (image_key E (req_url req)) info (pworld s)) = Inl f
        \<longrightarrow> fst (media_to_download E cfg req info s) = Inr None)
   \<and> (fst (stat_image E (image_store cfg) (image_key E (req_url req)) info (pworld s)) = Inr None
        \<longrightarrow> fst (media_to_download E cfg req info s) = Inr None)
   \<and> (fst (stat_image E (image_store cfg) (image_key E (req_url req)) info (pworld s)) = Inr (Some empty_stat)
        \<longrightarrow> fst (media_to_download E cfg req info s) = Inr None)
   \<and> (fs_mtime w (get_filesystem_path basedir key) = None
        \<longrightarrow> fst (stat_image E (FSImagesStore basedir) key info w) = Inr (Some empty_stat))
   \<and> (s3_download w (s3_build_request bucket prefix key ''HEAD'' None []) = Inr resp \<and> resp_status resp \<noteq> 200
        \<longrightarrow> fst (stat_image E (S3ImagesStore bucket prefix) key info w) = Inr None)"
proof -
  have a: "\<exists>v. fst (media_to_download E cfg req info s) = Inr v"
    using onsuccess_never_fails
    by (auto simp: media_to_download_unfold split: prod.splits sum.splits)
  have b: "fst (stat_image E (image_store cfg) (image_key E (req_url req)) info (pworld s)) = Inl f
        \<longrightarrow> fst (media_to_download E cfg req info s) = Inr None"
    by (auto simp: media_to_download_unfold split: prod.splits sum.splits)
  have c: "fst (stat_image E (image_store cfg) (image_key E (req_url req)) info (pworld s)) = Inr None
        \<longrightarrow> fst (media_to_download E cfg req info s) = Inr None"
    by (auto simp: media_to_download_unfold onsuccess_def split: prod.splits sum.splits)
  have d: "fst (stat_image E (image_store cfg) (image_key E (req_url req)) info (pworld s)) = Inr (Some empty_stat)
        \<longrightarrow> fst (media_to_download E cfg req info s) = Inr None"
    by (auto simp: media_to_download_unfold onsuccess_def empty_stat_def split: prod.splits sum.splits)
  have e: "fs_mtime w (get_filesystem_path basedir key) = None
        \<longrightarrow> fst (stat_image E (FSImagesStore basedir) key info w) = Inr (Some empty_stat)"
    by (simp add: fs_stat_image_def)
  have f: "s3_download w (s3_build_request bucket prefix key ''HEAD'' None []) = Inr resp \<and> resp_status resp \<noteq> 200
        \<longrightarrow> fst (stat_image E (S3ImagesStore bucket prefix) key info w) = Inr None"
    by (simp add: s3_stat_image_def s3_onsuccess_def Let_def)
  from a b c d e f show ?thesis by blast
qed

theorem stat_failure_forces_download_witness:
  "fst (stat_image example_env (image_store example_config) (image_key example_env (req_url example_request))
          ''spider'' unreadable_world) = Inl (Exception ''IOError'')
   \<and> fst (media_to_download example_env example_config example_request ''spider''
            (example_state\<lparr>pworld := unreadable_world\<rparr>)) = Inr None
   \<and> fs_mtime example_world (get_filesystem_path ''/data'' ''full/0.jpg'') = None
   \<and> fst (stat_image example_env (FSImagesStore ''/data'') ''full/0.jpg'' ''spider'' example_world) = Inr (Some empty_stat)
   \<and> resp_status not_found_response \<noteq> 200
   \<and> fst (stat_image example_env (S3ImagesStore ''bucket'' ''img/'') ''full/0.jpg'' ''spider''
            (example_world\<lparr>s3_download := (\<lambda>_. Inr not_found_response)\<rparr>)) = Inr None"
proof -
  have h: "fst (stat_image example_env (image_store example_config) (image_key example_env (req_url example_request))
          ''spider'' unreadable_world) = Inl (Exception ''IOError'')"
    by (simp add: example_config_def example_request_def unreadable_world_def example_world_def
        fs_stat_image_def example_path_def)
  have m: "fs_mtime example_world (get_filesystem_path ''/data'' ''full/0.jpg'') = None"
    by (simp add: example_world_def)
  have n: "resp_status not_found_response \<noteq> 200"
    by (simp add: not_found_response_def)
  show ?thesis
    using h m n
      stat_failure_forces_download [where E = example_env and cfg = example_config and req = example_request
        and info = "''spider''" and s = "example_state\<lparr>pworld := unreadable_world\<rparr>"
        and f = "Exception ''IOError''" and w = example_world and basedir = "''/data''" and key = "''full/0.jpg''"]
      stat_failure_forces_download [where E = example_env and cfg = example_config and req = example_request
        and info = "''spider''" and s = example_state
        and w = "example_world\<lparr>s3_download := (\<lambda>_. Inr not_found_response)\<rparr>"
        and bucket = "''bucket''" and prefix = "''img/''" and key = "''full/0.jpg''" and resp = not_found_response]
    by simp
qed

text \<open>
  C10: a stat result whose \<open>last_modified\<close> is 0 is treated as one with no
  \<open>last_modified\<close>: the check returns \<open>None\<close> and the download is forced although a stat
  record exists.
\<close>

theorem epoch_last_modified_is_missing:
  assumes "stat_image E (image_store cfg) (image_key E (req_url req)) info (pworld s) = (Inr (Some d), w')"
      and "last_modified d = Some 0"
  shows "media_to_download E cfg req info s = (Inr None, s\<lparr>pworld := w'\<rparr>)
       \<and> onsuccess E cfg req key (Some d) s = onsuccess E cfg req key (Some (d\<lparr>last_modified := None\<rparr>)) s"
  using assms by (simp add: media_to_download_unfold onsuccess_def)

theorem epoch_last_modified_is_missing_witness:
  "stat_image example_env (image_store example_config) (image_key example_env (req_url example_request))
      ''spider'' (pworld (example_state\<lparr>pworld := epoch_world\<rparr>))
     = (Inr (Some \<lparr>last_modified = Some 0, checksum = Some (md5sum example_env ''JPEG'')\<rparr>), epoch_world)
   \<and> media_to_download example_env example_config example_request ''spider'' (example_state\<lparr>pworld := epoch_world\<rparr>)
     = (Inr None, example_state\<lparr>pworld := epoch_world\<rparr>)"
proof -
  have h: "stat_image example_env (image_store example_config) (image_key example_env (req_url example_request))
      ''spider'' (pworld (example_state\<lparr>pworld := epoch_world\<rparr>))
     = (Inr (Some \<lparr>last_modified = Some 0, checksum = Some (md5sum example_env ''JPEG'')\<rparr>), epoch_world)"
    by (simp add: example_config_def example_request_def epoch_world_def example_world_def
        fs_stat_image_def example_path_def)
  show ?thesis
    using h epoch_last_modified_is_missing [OF h, where key = "''k''"] by simp
qed

subsection \<open>The downloaded response: claims\<close>

text \<open>
  C6: a response whose status is not 200, or whose body is empty, makes
  \<open>media_downloaded\<close> raise \<open>ImageException\<close>; the world is left as it was (nothing is
  persisted), no statistic is counted, and the result does not depend on the image library
  (nothing is processed).
\<close>

theorem bad_response_fails_unprocessed:
  assumes "resp_status resp \<noteq> 200 \<or> resp_body resp = []"
  shows "fst (media_downloaded E cfg resp req info s) = Inl (ImageException [])
       \<and> pworld (snd (media_downloaded E cfg resp req info s)) = pworld s
       \<and> pstats (snd (media_downloaded E cfg resp req info s)) = pstats s
       \<and> media_downloaded E' cfg resp req info s = media_downloaded E cfg resp req info s"
  using assms by (auto simp: media_downloaded_def log_msg_def)

theorem bad_response_fails_unprocessed_witness:
  "resp_status not_found_response = 404
   \<and> fst (media_downloaded example_env example_config not_found_response example_request ''spider'' example_state)
      = Inl (ImageException [])
   \<and> pworld (snd (media_downloaded example_env example_config not_found_response example_request ''spider'' example_state))
      = example_world"
proof -
  have h: "resp_status not_found_response \<noteq> 200 \<or> resp_body not_found_response = []"
    by (simp add: not_found_response_def)
  show ?thesis
    using h bad_response_fails_unprocessed [OF h, where E = example_env and E' = example_env
        and cfg = example_config and req = example_request and info = "''spider''" and s = example_state]
    by (simp add: example_state_def not_found_response_def)
qed

subsection \<open>Storage keys: claims\<close>

text \<open>
  Evaluating the hexadecimal digest of the example URL.
\<close>

lemma hex_digits_numeral:
  "hex_digits (numeral k) n = hex_digits (pred_numeral k) (n div 16) @ [digit_char (n mod 16)]"
  by (simp only: numeral_eq_Suc [of k] hex_digits.simps)

lemma hexdigest_example:
  "hexdigest 0x99e087d9e04c1527ebd8026fd3cc31035e6c7210 = ''99e087d9e04c1527ebd8026fd3cc31035e6c7210''"
  by (simp add: hexdigest_def hex_digits_numeral digit_char_def)

lemma image_key_example:
  "image_key example_env ''http://example.com/a.jpg'' = ''full/99e087d9e04c1527ebd8026fd3cc31035e6c7210.jpg''"
  by (simp add: image_key_def example_env_def hexdigest_example)

text \<open>
  C4 (as amended): the storage keys are functions of the URL alone, and not of the
  method, body or headers of the request: \<^verbatim>\<open>full/<digest>.jpg\<close> for the primary artifact
  and \<^verbatim>\<open>thumbs/<variant>/<digest>.jpg\<close> for a variant, where the digest is the SHA-1 digest
  of the URL written as 40 hexadecimal characters.
\<close>

theorem storage_key_shape:
  "image_key E u = ''full/'' @ hexdigest (sha1 E u) @ ''.jpg''
   \<and> thumb_key E u t = ''thumbs/'' @ t @ ''/'' @ hexdigest (sha1 E u) @ ''.jpg''
   \<and> length (hexdigest (sha1 E u)) = 40
   \<and> is_hex (hexdigest (sha1 E u))
   \<and> image_key E (req_url (r\<lparr>req_method := m, req_body := b, req_headers := h\<rparr>)) = image_key E (req_url r)"
  by (simp add: image_key_def thumb_key_def length_hexdigest is_hex_hexdigest)

theorem storage_key_shape_witness:
  "image_key example_env ''http://example.com/a.jpg'' = ''full/99e087d9e04c1527ebd8026fd3cc31035e6c7210.jpg''
   \<and> thumb_key example_env ''http://example.com/a.jpg'' ''small''
       = ''thumbs/small/99e087d9e04c1527ebd8026fd3cc31035e6c7210.jpg''"
  using storage_key_shape [where E = example_env and u = "''http://example.com/a.jpg''" and t = "''small''"]
  by (simp add: example_env_def hexdigest_example)

text \<open>
  The claim as the specification words it fails: the key of the example URL does not
  have a digest of 64 hexadecimal characters.
\<close>

theorem key_digest_length_counterexample:
  "\<not> spec_primary_key_shape (image_key example_env ''http://example.com/a.jpg'')"
  by (simp add: image_key_example spec_primary_key_shape_def)

subsection \<open>Processing and persisting: lemmas\<close>

text \<open>
  What a first artifact of \<^verbatim>\<open>get_images\<close> says, what a call of \<^verbatim>\<open>persist_image\<close>
  that returns adds to the history, and what a run of the loop that returns has done.
\<close>

lemma get_images_head:
  assumes "get_images E cfg resp req = Inr a # rest"
  shows "\<exists>orig im buf. image_open E (resp_body resp) = Inr orig
            \<and> \<not> (int (fst (im_size orig)) < MIN_WIDTH cfg \<or> int (snd (im_size orig)) < MIN_HEIGHT cfg)
            \<and> convert_image E orig None = Inr (im, buf)
            \<and> a = (image_key E (req_url req), im, buf)
            \<and> rest = map (thumb_step E (req_url req) im) (THUMBS cfg)"
  using assms by (auto simp: get_images_def Let_def split: sum.splits prod.splits if_splits)

lemma get_images_not_Nil: "get_images E cfg resp req \<noteq> []"
  by (auto simp: get_images_def Let_def split: sum.splits prod.splits)

lemma store_persist_image_persisted:
  "store_persist_image E st key im buf info w = Inr w' \<Longrightarrow> persisted w' = persisted w"
  by (cases st)
     (auto simp: fs_persist_image_def mkdir_def makedirs_def image_save_path_def s3_persist_image_def Let_def
           split: sum.splits option.splits if_splits prod.splits)

lemma persist_image_persisted:
  "persist_image E st key im buf info w = Inr w' \<Longrightarrow> persisted w' = persisted w @ [(key, im, buf)]"
  by (auto simp: persist_image_def store_persist_image_persisted split: sum.splits)

lemma persist_loop_first_buf:
  "persist_loop E st info steps fb w = (Inr r, w') \<Longrightarrow>
     r = (case fb of Some b \<Rightarrow> Some b
          | None \<Rightarrow> (case steps of [] \<Rightarrow> None | Inl e # _ \<Rightarrow> None | Inr (k, i, b) # _ \<Rightarrow> Some b))"
proof (induction E st info steps fb w rule: persist_loop.induct)
  case (1 E st info first_buf w)
  then show ?case by (simp split: option.splits)
next
  case (2 E st info e rest first_buf w)
  then show ?case by simp
next
  case (3 E st info key im buf rest first_buf w)
  then show ?case by (auto split: sum.splits option.splits if_splits)
qed

lemma persist_loop_trace:
  "persist_loop E st info steps fb w = (Inr r, w') \<Longrightarrow>
     \<exists>arts. steps = map Inr arts \<and> persisted w' = persisted w @ arts"
proof (induction E st info steps fb w rule: persist_loop.induct)
  case (1 E st info first_buf w)
  then show ?case by simp
next
  case (2 E st info e rest first_buf w)
  then show ?case by simp
next
  case (3 E st info key im buf rest first_buf w)
  from 3(2) obtain w1 where p: "persist_image E st key im buf info w = Inr w1"
    and l: "persist_loop E st info rest (if first_buf = None then Some buf else first_buf) w1 = (Inr r, w')"
    by (auto split: sum.splits)
  from 3(1) [OF p l] obtain arts where a: "rest = map Inr arts" "persisted w' = persisted w1 @ arts"
    by blast
  show ?case
    by (rule exI [where x = "(key, im, buf) # arts"]) (simp add: a persist_image_persisted [OF p])
qed

lemma media_downloaded_success:
  assumes "fst (media_downloaded E cfg resp req info s) = Inr out"
  shows "\<exists>orig im buf w'.
           image_open E (resp_body resp) = Inr orig
         \<and> \<not> (int (fst (im_size orig)) < MIN_WIDTH cfg \<or> int (snd (im_size orig)) < MIN_HEIGHT cfg)
         \<and> convert_image E orig None = Inr (im, buf)
         \<and> get_images E cfg resp req
             = Inr (image_key E (req_url req), im, buf) # map (thumb_step E (req_url req) im) (THUMBS cfg)
         \<and> persist_loop E (image_store cfg) info (get_images E cfg resp req) None (pworld s) = (Inr (Some buf), w')
         \<and> pworld (snd (media_downloaded E cfg resp req info s)) = w'
         \<and> out = \<lparr>o_url = req_url req, o_path = image_key E (req_url req), o_checksum = Some (md5sum E buf)\<rparr>"
proof -
  let ?steps = "get_images E cfg resp req"
  from assms have ok: "resp_status resp = 200" "resp_body resp \<noteq> []"
    by (auto simp: media_downloaded_def split: if_splits)
  obtain r w' where pl: "persist_loop E (image_store cfg) info ?steps None (pworld s) = (r, w')"
    by (cases "persist_loop E (image_store cfg) info ?steps None (pworld s)") auto
  from assms ok pl obtain fb where r: "r = Inr (Some fb)"
    and out: "out = \<lparr>o_url = req_url req, o_path = image_key E (req_url req), o_checksum = Some (md5sum E fb)\<rparr>"
    and w: "pworld (snd (media_downloaded E cfg resp req info s)) = w'"
    by (auto simp: media_downloaded_def image_downloaded_def Let_def inc_stats_def stats_inc_value_def log_msg_def
        split: sum.splits option.splits exn.splits prod.splits)
  from pl r have pl': "persist_loop E (image_store cfg) info ?steps None (pworld s) = (Inr (Some fb), w')"
    by simp
  from persist_loop_trace [OF pl'] obtain arts where arts: "?steps = map Inr arts" by blast
  with get_images_not_Nil [of E cfg resp req] obtain a rest where st: "?steps = Inr a # rest"
    by (cases arts) auto
  from get_images_head [OF st] obtain orig im buf where
      o: "image_open E (resp_body resp) = Inr orig"
      "\<not> (int (fst (im_size orig)) < MIN_WIDTH cfg \<or> int (snd (im_size orig)) < MIN_HEIGHT cfg)"
      "convert_image E orig None = Inr (im, buf)"
      "a = (image_key E (req_url req), im, buf)"
      "rest = map (thumb_step E (req_url req) im) (THUMBS cfg)"
    by blast
  from persist_loop_first_buf [OF pl'] st o(4) have "fb = buf" by simp
  with o st pl' out w show ?thesis by auto
qed


subsection \<open>Processing and persisting: claims\<close>

text \<open>
  C7: a decodable payload whose width is below \<open>MIN_WIDTH\<close> or whose height is below
  \<open>MIN_HEIGHT\<close> makes \<^verbatim>\<open>media_downloaded\<close> raise \<open>ImageException\<close> with the too-small
  message, which cites the actual and the required dimensions; the generator yields no
  artifact and the world is as it was: nothing is persisted.
\<close>

theorem too_small_fails_unpersisted:
  assumes "resp_status resp = 200" and "resp_body resp \<noteq> []"
      and "image_open E (resp_body resp) = Inr orig" and "im_size orig = (width, height)"
      and "int width < MIN_WIDTH cfg \<or> int height < MIN_HEIGHT cfg"
  shows "fst (media_downloaded E cfg resp req info s)
           = Inl (ImageException (too_small_msg width height (MIN_WIDTH cfg) (MIN_HEIGHT cfg) (resp_url resp)))
       \<and> get_images E cfg resp req
           = [Inl (ImageException (too_small_msg width height (MIN_WIDTH cfg) (MIN_HEIGHT cfg) (resp_url resp)))]
       \<and> pworld (snd (media_downloaded E cfg resp req info s)) = pworld s"
proof -
  from assms have g: "get_images E cfg resp req
           = [Inl (ImageException (too_small_msg width height (MIN_WIDTH cfg) (MIN_HEIGHT cfg) (resp_url resp)))]"
    by (auto simp: get_images_def)
  with assms(1,2) show ?thesis
    by (simp add: media_downloaded_def image_downloaded_def Let_def inc_stats_def stats_inc_value_def log_msg_def)
qed

lemma str_nat_3: "str_nat 3 = ''3''"
  by (simp add: str_nat.simps digit_char_def)

lemma str_nat_110: "str_nat 110 = ''110''"
  by (simp add: str_nat.simps digit_char_def)

theorem too_small_fails_unpersisted_witness:
  "too_small_msg 3 3 110 110 ''http://example.com/a.jpg'' = ''Image too small (3x3 < 110x110): http://example.com/a.jpg''
   \<and> fst (media_downloaded example_env strict_config (ok_response\<lparr>resp_body := ''GIF''\<rparr>) example_request ''spider'' example_state)
      = Inl (ImageException ''Image too small (3x3 < 110x110): http://example.com/a.jpg'')
   \<and> pworld (snd (media_downloaded example_env strict_config (ok_response\<lparr>resp_body := ''GIF''\<rparr>) example_request ''spider'' example_state))
      = example_world"
proof -
  have m: "too_small_msg 3 3 110 110 ''http://example.com/a.jpg'' = ''Image too small (3x3 < 110x110): http://example.com/a.jpg''"
    by (simp add: too_small_msg_def str_int_def str_nat_3 str_nat_110)
  have o: "image_open example_env (resp_body (ok_response\<lparr>resp_body := ''GIF''\<rparr>))
             = Inr \<lparr>im_mode = ''P'', im_size = (3, 3), im_pixels = ''GIF''\<rparr>"
    by (simp add: example_env_def)
  show ?thesis
    using m too_small_fails_unpersisted [OF _ _ o, where width = 3 and height = 3 and cfg = strict_config
        and req = example_request and info = "''spider''" and s = example_state]
    by (simp add: ok_response_def strict_config_def example_config_def example_state_def)
qed

text \<open>
  C8: the checksum of a successful outcome is \<^verbatim>\<open>md5sum\<close> of the buffer of the primary
  artifact, the first that \<^verbatim>\<open>get_images\<close> yields, and it is the same whatever thumbnail
  sizes are configured.
\<close>

theorem checksum_of_primary_artifact:
  assumes "fst (media_downloaded E cfg resp req info s) = Inr out"
      and "fst (media_downloaded E (cfg\<lparr>THUMBS := ts\<rparr>) resp req info s') = Inr out'"
  shows "(\<exists>orig im buf. image_open E (resp_body resp) = Inr orig \<and> convert_image E orig None = Inr (im, buf)
            \<and> o_checksum out = Some (md5sum E buf))
       \<and> o_checksum out' = o_checksum out"
proof -
  from media_downloaded_success [OF assms(1)] obtain orig im buf where
    a: "image_open E (resp_body resp) = Inr orig" "convert_image E orig None = Inr (im, buf)"
       "o_checksum out = Some (md5sum E buf)"
    by auto
  from media_downloaded_success [OF assms(2)] obtain orig' im' buf' where
    b: "image_open E (resp_body resp) = Inr orig'" "convert_image E orig' None = Inr (im', buf')"
       "o_checksum out' = Some (md5sum E buf')"
    by auto
  from a b have "buf' = buf" by simp
  with a b show ?thesis by auto
qed











subsection \<open>Persist failures: lemmas and claims\<close>

text \<open>
  The example inputs evaluated, and the loop on the S3 store, whose \<^verbatim>\<open>persist_image\<close>
  always returns.
\<close>

lemma example_env_simps:
  "image_open example_env ''JPEGDATA'' = Inr \<lparr>im_mode = ''P'', im_size = (640, 480), im_pixels = ''JPEGDATA''\<rparr>"
  "convert_pixels example_env im m = Inr (im_pixels im)"
  "resize example_env im sz = Inr (sz, im_pixels im)"
  "save_jpeg example_env im = Inr (im_pixels im)"
  by (simp_all add: example_env_def)

lemma example_config_simps:
  "MIN_WIDTH example_config = 0" "MIN_HEIGHT example_config = 0" "EXPIRES example_config = 90"
  "THUMBS example_config = [(''small'', 50, 50), (''big'', 270, 270)]"
  "image_store example_config = FSImagesStore ''/data''"
  by (simp_all add: example_config_def)

lemma get_images_example:
  "get_images example_env example_config ok_response example_request =
     [Inr (image_key example_env ''http://example.com/a.jpg'', example_primary, ''JPEGDATA''),
      Inr (thumb_key example_env ''http://example.com/a.jpg'' ''small'', example_primary\<lparr>im_size := (50, 50)\<rparr>, ''JPEGDATA''),
      Inr (thumb_key example_env ''http://example.com/a.jpg'' ''big'', example_primary\<lparr>im_size := (270, 270)\<rparr>, ''JPEGDATA'')]"
  by (simp add: get_images_def example_env_simps example_config_simps ok_response_def example_request_def
      example_primary_def thumb_step_def convert_image_def convert_def thumbnail_def Let_def)

lemma s3_persist_loop_returns:
  "\<exists>w'. persist_loop E (S3ImagesStore bucket prefix) info (map Inr arts) fb w
         = (Inr (case fb of Some b \<Rightarrow> Some b | None \<Rightarrow> (case arts of [] \<Rightarrow> None | (k, i, b) # _ \<Rightarrow> Some b)), w')"
proof (induction arts arbitrary: fb w)
  case Nil
  then show ?case by (simp split: option.splits)
next
  case (Cons a arts)
  obtain k i b where a: "a = (k, i, b)" by (cases a) auto
  obtain w1 where p: "persist_image E (S3ImagesStore bucket prefix) k i b info w = Inr w1"
    by (cases "im_size i") (simp add: persist_image_def s3_persist_image_def Let_def)
  from Cons [of "if fb = None then Some b else fb" w1] a p show ?case
    by (auto split: option.splits)
qed

lemma pworld_inc_stats: "pworld (inc_stats st (log_msg lv m s)) = pworld s"
  by (simp add: inc_stats_def stats_inc_value_def log_msg_def)

lemma media_downloaded_of_loop:
  assumes "resp_status resp = 200" and "resp_body resp \<noteq> []"
      and "persist_loop E (image_store cfg) info (get_images E cfg resp req) None (pworld s) = (Inr (Some fb), w')"
  shows "fst (media_downloaded E cfg resp req info s)
           = Inr \<lparr>o_url = req_url req, o_path = image_key E (req_url req), o_checksum = Some (md5sum E fb)\<rparr>"
  using assms by (simp add: media_downloaded_def image_downloaded_def Let_def pworld_inc_stats)

lemma media_downloaded_s3:
  assumes "resp_status resp = 200" and "resp_body resp \<noteq> []"
      and "image_store cfg = S3ImagesStore bucket prefix"
      and "get_images E cfg resp req = Inr (key, im, buf) # map Inr arts"
  shows "fst (media_downloaded E cfg resp req info s)
           = Inr \<lparr>o_url = req_url req, o_path = image_key E (req_url req), o_checksum = Some (md5sum E buf)\<rparr>"
proof -
  from assms(4) have g: "get_images E cfg resp req = map Inr ((key, im, buf) # arts)" by simp
  from s3_persist_loop_returns [of E bucket prefix info "(key, im, buf) # arts" None "pworld s"]
  obtain w' where "persist_loop E (S3ImagesStore bucket prefix) info (map Inr ((key, im, buf) # arts)) None (pworld s)
         = (Inr (Some buf), w')"
    by auto
  with assms(3) g have "persist_loop E (image_store cfg) info (get_images E cfg resp req) None (pworld s)
         = (Inr (Some buf), w')"
    by (simp only:)
  from media_downloaded_of_loop [OF assms(1,2) this] show ?thesis .
qed

text \<open>
  The loop over a list of artifacts in two parts: the second part starts in the world,
  and with the first buffer, that the first part ends with.
\<close>

lemma persist_loop_append:
  "persist_loop E st info (xs @ ys) fb w =
     (case persist_loop E st info xs fb w of
        (Inl e, w') \<Rightarrow> (Inl e, w')
      | (Inr fb', w') \<Rightarrow> persist_loop E st info ys fb' w')"
proof (induction E st info xs fb w rule: persist_loop.induct)
  case (1 E st info first_buf w)
  then show ?case by simp
next
  case (2 E st info e rest first_buf w)
  then show ?case by simp
next
  case (3 E st info key im buf rest first_buf w)
  then show ?case by (auto split: sum.splits)
qed

text \<open>
  C2 (as amended): for a response with status 200 and a body, a failure that the
  store's \<^verbatim>\<open>persist_image\<close> raises for any artifact, the primary or a thumbnail, after
  the artifacts before it were persisted (the filesystem store: \<^verbatim>\<open>os.makedirs\<close> or
  \<^verbatim>\<open>image.save\<close> raising) is logged and makes \<^verbatim>\<open>media_downloaded\<close> raise
  \<open>ImageException\<close>: the resource fails, and what was persisted before stays. With the S3
  store, whose \<^verbatim>\<open>persist_image\<close> only hands the upload to the engine and whose deferred is
  dropped, no outcome of an upload is seen, and the outcome record (url, storage key,
  checksum of the primary buffer) is produced.
\<close>

theorem persist_failure_outcome:
  assumes "resp_status resp = 200" and "resp_body resp \<noteq> []"
  shows "(get_images E cfg resp req = map Inr pre @ Inr (key, im, buf) # rest
            \<and> persist_loop E (image_store cfg) info (map Inr pre) None (pworld s) = (Inr fb, wp)
            \<and> persist_image E (image_store cfg) key im buf info wp = Inl e
          \<longrightarrow> fst (media_downloaded E cfg resp req info s)
                = Inl (ImageException (case e of ImageException m \<Rightarrow> m | Exception m \<Rightarrow> []))
              \<and> last (plog (snd (media_downloaded E cfg resp req info s)))
                  = (case e of ImageException m \<Rightarrow> LogMsg WARNING m | Exception m \<Rightarrow> LogErr e)
              \<and> pworld (snd (media_downloaded E cfg resp req info s)) = wp)
       \<and> (image_store cfg = S3ImagesStore bucket prefix
            \<and> get_images E cfg resp req = Inr (key, im, buf) # map Inr arts
          \<longrightarrow> fst (media_downloaded E cfg resp req info s)
                = Inr \<lparr>o_url = req_url req, o_path = image_key E (req_url req), o_checksum = Some (md5sum E buf)\<rparr>)"
proof (intro conjI impI)
  assume a: "get_images E cfg resp req = map Inr pre @ Inr (key, im, buf) # rest
            \<and> persist_loop E (image_store cfg) info (map Inr pre) None (pworld s) = (Inr fb, wp)
            \<and> persist_image E (image_store cfg) key im buf info wp = Inl e"
  then have l: "persist_loop E (image_store cfg) info (get_images E cfg resp req) None (pworld s) = (Inl e, wp)"
    by (simp add: persist_loop_append)
  then have i: "image_downloaded E cfg resp req info (pworld s) = (Inl e, wp)"
    by (simp add: image_downloaded_def)
  have m: "media_downloaded E cfg resp req info s =
      (let status = (if ''cached'' \<in> set (resp_flags resp) then ''cached'' else ''downloaded'');
           s1 = inc_stats status (log_msg DEBUG status s)
       in case e of
            ImageException m \<Rightarrow> (Inl (ImageException m), log_msg WARNING m (s1\<lparr>pworld := wp\<rparr>))
          | Exception m \<Rightarrow> (Inl (ImageException []), (s1\<lparr>pworld := wp\<rparr>)\<lparr>plog := plog s1 @ [LogErr (Exception m)]\<rparr>))"
    using i assms by (cases e) (simp_all add: media_downloaded_def Let_def pworld_inc_stats)
  show "fst (media_downloaded E cfg resp req info s)
                = Inl (ImageException (case e of ImageException m \<Rightarrow> m | Exception m \<Rightarrow> []))"
    unfolding m by (cases e) (simp_all add: Let_def)
  show "last (plog (snd (media_downloaded E cfg resp req info s)))
                  = (case e of ImageException m \<Rightarrow> LogMsg WARNING m | Exception m \<Rightarrow> LogErr e)"
    unfolding m by (cases e) (simp_all add: Let_def log_msg_def)
  show "pworld (snd (media_downloaded E cfg resp req info s)) = wp"
    unfolding m by (cases e) (simp_all add: Let_def log_msg_def)
next
  assume b: "image_store cfg = S3ImagesStore bucket prefix
            \<and> get_images E cfg resp req = Inr (key, im, buf) # map Inr arts"
  then show "fst (media_downloaded E cfg resp req info s)
                = Inr \<lparr>o_url = req_url req, o_path = image_key E (req_url req), o_checksum = Some (md5sum E buf)\<rparr>"
    using media_downloaded_s3 [OF assms] by blast
qed

lemma ok_response_simps:
  "resp_status ok_response = 200" "resp_body ok_response = ''JPEGDATA''" "resp_flags ok_response = []"
  "resp_url ok_response = ''http://example.com/a.jpg''"
  by (simp_all add: ok_response_def)

lemma image_downloaded_readonly:
  "image_downloaded example_env example_config ok_response example_request ''spider'' readonly_world
     = (Inl (Exception ''OSError''), readonly_world)"
  by (simp add: image_downloaded_def get_images_example example_config_simps persist_image_def
      fs_persist_image_def mkdir_def makedirs_def readonly_world_def example_world_def Let_def)

text \<open>
  The claim as the specification words it fails: with the filesystem store and a
  directory that cannot be made, the persist failure is logged and the resource fails.
\<close>

theorem persist_failure_counterexample:
  "fst (media_downloaded example_env example_config ok_response example_request ''spider''
          (example_state\<lparr>pworld := readonly_world\<rparr>)) = Inl (ImageException [])
   \<and> last (plog (snd (media_downloaded example_env example_config ok_response example_request ''spider''
          (example_state\<lparr>pworld := readonly_world\<rparr>)))) = LogErr (Exception ''OSError'')"
  by (simp add: media_downloaded_def ok_response_simps image_downloaded_readonly Let_def inc_stats_def
      stats_inc_value_def log_msg_def)

lemma thumb_step_example:
  "thumb_step example_env u example_primary t
     = Inr (thumb_key example_env u (fst t), example_primary\<lparr>im_size := snd t\<rparr>, ''JPEGDATA'')"
  by (cases t)
     (simp add: thumb_step_def convert_image_def thumbnail_def example_env_simps example_primary_def)

lemma get_images_example_any:
  assumes "MIN_WIDTH cfg \<le> 640" and "MIN_HEIGHT cfg \<le> 480"
  shows "get_images example_env cfg ok_response example_request =
     Inr (image_key example_env ''http://example.com/a.jpg'', example_primary, ''JPEGDATA'')
     # map Inr (map (\<lambda>t. (thumb_key example_env ''http://example.com/a.jpg'' (fst t),
                            example_primary\<lparr>im_size := snd t\<rparr>, ''JPEGDATA'')) (THUMBS cfg))"
proof -
  have c: "convert_image example_env \<lparr>im_mode = ''P'', im_size = (640, 480), im_pixels = ''JPEGDATA''\<rparr> None
      = Inr (example_primary, ''JPEGDATA'')"
    by (simp add: convert_image_def convert_def example_env_simps example_primary_def)
  show ?thesis
    using assms
    by (simp add: get_images_def example_env_simps ok_response_simps example_request_def c
        thumb_step_example comp_def Let_def)
qed

lemma media_downloaded_example_s3:
  "fst (media_downloaded example_env (s3_config\<lparr>THUMBS := ts\<rparr>) ok_response example_request ''spider'' s)
     = Inr \<lparr>o_url = ''http://example.com/a.jpg'', o_path = image_key example_env ''http://example.com/a.jpg'',
            o_checksum = Some (md5sum example_env ''JPEGDATA'')\<rparr>"
proof -
  have g: "get_images example_env (s3_config\<lparr>THUMBS := ts\<rparr>) ok_response example_request =
     Inr (image_key example_env ''http://example.com/a.jpg'', example_primary, ''JPEGDATA'')
     # map Inr (map (\<lambda>t. (thumb_key example_env ''http://example.com/a.jpg'' (fst t),
                            example_primary\<lparr>im_size := snd t\<rparr>, ''JPEGDATA'')) (THUMBS (s3_config\<lparr>THUMBS := ts\<rparr>)))"
    by (rule get_images_example_any) (simp_all add: s3_config_def example_config_simps)
  have st: "image_store (s3_config\<lparr>THUMBS := ts\<rparr>) = S3ImagesStore ''bucket'' ''img/''"
    by (simp add: s3_config_def)
  from media_downloaded_s3 [OF _ _ st g, of "''spider''" s] show ?thesis
    by (simp add: ok_response_simps example_request_def)
qed

lemma thumb_key_example:
  "thumb_key example_env ''http://example.com/a.jpg'' t = ''thumbs/'' @ t @ ''/99e087d9e04c1527ebd8026fd3cc31035e6c7210.jpg''"
  by (simp add: thumb_key_def example_env_def hexdigest_example)

lemma example_full_path:
  "get_filesystem_path ''/data'' ''full/99e087d9e04c1527ebd8026fd3cc31035e6c7210.jpg''
     = ''/data/full/99e087d9e04c1527ebd8026fd3cc31035e6c7210.jpg''"
  by (simp add: get_filesystem_path_def path_join_def path_join1_def)

lemma example_full_dir:
  "dirname ''/data/full/99e087d9e04c1527ebd8026fd3cc31035e6c7210.jpg'' = ''/data/full''"
  by (simp add: dirname_def rstrip_slash_def)

lemma example_small_path:
  "get_filesystem_path ''/data'' ''thumbs/small/99e087d9e04c1527ebd8026fd3cc31035e6c7210.jpg''
     = ''/data/thumbs/small/99e087d9e04c1527ebd8026fd3cc31035e6c7210.jpg''"
  by (simp add: get_filesystem_path_def path_join_def path_join1_def)

lemma example_small_dir:
  "dirname ''/data/thumbs/small/99e087d9e04c1527ebd8026fd3cc31035e6c7210.jpg'' = ''/data/thumbs/small''"
  by (simp add: dirname_def rstrip_slash_def)

lemma persist_primary_example:
  "persist_image example_env (FSImagesStore ''/data'') ''full/99e087d9e04c1527ebd8026fd3cc31035e6c7210.jpg''
      example_primary ''JPEGDATA'' ''spider'' thumbs_denied_world = Inr primary_saved_world"
  by (simp add: persist_image_def fs_persist_image_def example_full_path example_full_dir mkdir_def
      makedirs_def image_save_path_def example_env_simps example_primary_def primary_saved_world_def
      thumbs_denied_world_def example_world_def Let_def)

lemma persist_small_example:
  "persist_image example_env (FSImagesStore ''/data'') ''thumbs/small/99e087d9e04c1527ebd8026fd3cc31035e6c7210.jpg''
      im ''JPEGDATA'' ''spider'' primary_saved_world = Inl (Exception ''OSError'')"
  by (simp add: persist_image_def fs_persist_image_def example_small_path example_small_dir mkdir_def
      makedirs_def primary_saved_world_def thumbs_denied_world_def example_world_def Let_def)

theorem persist_failure_outcome_witness:
  "persist_loop example_env (image_store example_config) ''spider''
      (map Inr [(image_key example_env ''http://example.com/a.jpg'', example_primary, ''JPEGDATA'')]) None
      (pworld (example_state\<lparr>pworld := thumbs_denied_world\<rparr>)) = (Inr (Some ''JPEGDATA''), primary_saved_world)
   \<and> fst (media_downloaded example_env example_config ok_response example_request ''spider''
          (example_state\<lparr>pworld := thumbs_denied_world\<rparr>)) = Inl (ImageException [])
   \<and> last (plog (snd (media_downloaded example_env example_config ok_response example_request ''spider''
          (example_state\<lparr>pworld := thumbs_denied_world\<rparr>)))) = LogErr (Exception ''OSError'')
   \<and> pworld (snd (media_downloaded example_env example_config ok_response example_request ''spider''
          (example_state\<lparr>pworld := thumbs_denied_world\<rparr>))) = primary_saved_world
   \<and> s3_download (pworld example_state) = (\<lambda>_. Inl (Exception ''TimeoutError''))
   \<and> fst (media_downloaded example_env (s3_config\<lparr>THUMBS := []\<rparr>) ok_response example_request ''spider'' example_state)
      = Inr \<lparr>o_url = ''http://example.com/a.jpg'', o_path = image_key example_env ''http://example.com/a.jpg'',
             o_checksum = Some (md5sum example_env ''JPEGDATA'')\<rparr>"
proof -
  have gi: "get_images example_env example_config ok_response example_request =
      map Inr [(image_key example_env ''http://example.com/a.jpg'', example_primary, ''JPEGDATA'')]
      @ Inr (thumb_key example_env ''http://example.com/a.jpg'' ''small'', example_primary\<lparr>im_size := (50, 50)\<rparr>, ''JPEGDATA'')
      # [Inr (thumb_key example_env ''http://example.com/a.jpg'' ''big'', example_primary\<lparr>im_size := (270, 270)\<rparr>, ''JPEGDATA'')]"
    by (simp add: get_images_example)
  have l: "persist_loop example_env (image_store example_config) ''spider''
      (map Inr [(image_key example_env ''http://example.com/a.jpg'', example_primary, ''JPEGDATA'')]) None
      (pworld (example_state\<lparr>pworld := thumbs_denied_world\<rparr>)) = (Inr (Some ''JPEGDATA''), primary_saved_world)"
    by (simp add: example_config_simps image_key_example persist_primary_example)
  have p: "persist_image example_env (image_store example_config)
             (thumb_key example_env ''http://example.com/a.jpg'' ''small'')
             (example_primary\<lparr>im_size := (50, 50)\<rparr>) ''JPEGDATA'' ''spider'' primary_saved_world
           = Inl (Exception ''OSError'')"
    by (simp add: example_config_simps thumb_key_example persist_small_example)
  have g: "get_images example_env (s3_config\<lparr>THUMBS := []\<rparr>) ok_response example_request =
     Inr (image_key example_env ''http://example.com/a.jpg'', example_primary, ''JPEGDATA'') # map Inr []"
    using get_images_example_any [of "s3_config\<lparr>THUMBS := []\<rparr>"]
    by (simp add: s3_config_def example_config_simps)
  have st: "image_store (s3_config\<lparr>THUMBS := []\<rparr>) = S3ImagesStore ''bucket'' ''img/''"
    by (simp add: s3_config_def)
  have d: "s3_download (pworld example_state) = (\<lambda>_. Inl (Exception ''TimeoutError''))"
    by (simp add: example_state_def example_world_def)
  show ?thesis
    using gi l p g st d
      persist_failure_outcome [where E = example_env and cfg = example_config and resp = ok_response
        and req = example_request and info = "''spider''" and s = "example_state\<lparr>pworld := thumbs_denied_world\<rparr>"
        and e = "Exception ''OSError''"
        and pre = "[(image_key example_env ''http://example.com/a.jpg'', example_primary, ''JPEGDATA'')]"
        and key = "thumb_key example_env ''http://example.com/a.jpg'' ''small''"
        and im = "example_primary\<lparr>im_size := (50, 50)\<rparr>" and buf = "''JPEGDATA''"
        and fb = "Some ''JPEGDATA''" and wp = primary_saved_world
        and rest = "[Inr (thumb_key example_env ''http://example.com/a.jpg'' ''big'', example_primary\<lparr>im_size := (270, 270)\<rparr>, ''JPEGDATA'')]"]
      persist_failure_outcome [where E = example_env and cfg = "s3_config\<lparr>THUMBS := []\<rparr>" and resp = ok_response
        and req = example_request and info = "''spider''" and s = example_state
        and key = "image_key example_env ''http://example.com/a.jpg''"
        and im = example_primary and buf = "''JPEGDATA''" and arts = "[]"
        and bucket = "''bucket''" and prefix = "''img/''"]
    by (simp add: ok_response_simps example_request_def)
qed

theorem checksum_of_primary_artifact_witness:
  "fst (media_downloaded example_env s3_config ok_response example_request ''spider'' example_state)
      = Inr \<lparr>o_url = ''http://example.com/a.jpg'', o_path = image_key example_env ''http://example.com/a.jpg'',
             o_checksum = Some (md5sum example_env ''JPEGDATA'')\<rparr>
   \<and> fst (media_downloaded example_env (s3_config\<lparr>THUMBS := []\<rparr>) ok_response example_request ''spider'' example_state)
      = Inr \<lparr>o_url = ''http://example.com/a.jpg'', o_path = image_key example_env ''http://example.com/a.jpg'',
             o_checksum = Some (md5sum example_env ''JPEGDATA'')\<rparr>
   \<and> convert_image example_env \<lparr>im_mode = ''P'', im_size = (640, 480), im_pixels = ''JPEGDATA''\<rparr> None
      = Inr (example_primary, ''JPEGDATA'')"
proof -
  have a: "fst (media_downloaded example_env s3_config ok_response example_request ''spider'' example_state)
      = Inr \<lparr>o_url = ''http://example.com/a.jpg'', o_path = image_key example_env ''http://example.com/a.jpg'',
             o_checksum = Some (md5sum example_env ''JPEGDATA'')\<rparr>"
    using media_downloaded_example_s3 [of "THUMBS s3_config" example_state] by simp
  have b: "fst (media_downloaded example_env (s3_config\<lparr>THUMBS := []\<rparr>) ok_response example_request ''spider'' example_state)
      = Inr \<lparr>o_url = ''http://example.com/a.jpg'', o_path = image_key example_env ''http://example.com/a.jpg'',
             o_checksum = Some (md5sum example_env ''JPEGDATA'')\<rparr>"
    by (rule media_downloaded_example_s3)
  have c: "convert_image example_env \<lparr>im_mode = ''P'', im_size = (640, 480), im_pixels = ''JPEGDATA''\<rparr> None
      = Inr (example_primary, ''JPEGDATA'')"
    by (simp add: convert_image_def convert_def example_env_simps example_primary_def)
  show ?thesis
    using a b c checksum_of_primary_artifact [OF a b] by simp
qed









subsection \<open>Request fingerprints: lemmas and claims\<close>
















end
